theory Spec2Isabelle
  imports Complex_Main "HOL-Library.Multiset" "HOL-Library.Char_ord" "HOL-Library.List_Lexorder"
begin

section \<open>Python values, errors and the statsd client\<close>

text \<open>
  The hooks of \<^verbatim>\<open>app_helper.py\<close> read attributes that the application stashes on the
  request object (\<^verbatim>\<open>start_time\<close>, \<^verbatim>\<open>purchase_amount\<close>, ...). Their Python type is
  not fixed by the module, so an attribute value is one of the following. A float is
  represented by the real number it denotes (rounding, infinities and NaN are outside the
  model).
\<close>

datatype pyval = PNone | PInt int | PFloat real | PStr string

datatype pyerr = AttributeError | TypeError | ValueError

text \<open>
  One call on the module-level \<^verbatim>\<open>DogStatsd\<close> client: the method, the metric name,
  the value and the tag list in the order the source writes it. The client sends over UDP
  and returns; a call is the emission of the metric.
\<close>

datatype statsd_call =
    Histogram string pyval "string list"
  | Increment string pyval "string list"
  | Gauge string pyval "string list"
  | Distribution string pyval "string list"

fun call_name :: "statsd_call \<Rightarrow> string" where
  "call_name (Histogram n v ts) = n"
| "call_name (Increment n v ts) = n"
| "call_name (Gauge n v ts) = n"
| "call_name (Distribution n v ts) = n"

fun call_value :: "statsd_call \<Rightarrow> pyval" where
  "call_value (Histogram n v ts) = v"
| "call_value (Increment n v ts) = v"
| "call_value (Gauge n v ts) = v"
| "call_value (Distribution n v ts) = v"

fun call_tags :: "statsd_call \<Rightarrow> string list" where
  "call_tags (Histogram n v ts) = ts"
| "call_tags (Increment n v ts) = ts"
| "call_tags (Gauge n v ts) = ts"
| "call_tags (Distribution n v ts) = ts"

text \<open>
  The outside world of a hook: the calls made on the statsd client so far, and the
  exceptions whose message \<^verbatim>\<open>record_purchase_metrics\<close> has printed.
\<close>

record io =
  emitted :: "statsd_call list"
  printed :: "pyerr list"

definition statsd :: "statsd_call \<Rightarrow> io \<Rightarrow> io" where
  "statsd c s = s\<lparr>emitted := emitted s @ [c]\<rparr>"

definition calls_named :: "string \<Rightarrow> statsd_call list \<Rightarrow> statsd_call list" where
  "calls_named n cs = filter (\<lambda>c. call_name c = n) cs"

text \<open>The calls made between an earlier world and a later one.\<close>

definition new_calls :: "io \<Rightarrow> io \<Rightarrow> statsd_call list" where
  "new_calls s s' = drop (length (emitted s)) (emitted s')"

subsection \<open>Metric names\<close>

definition PURCHASE_AMOUNT_METRIC :: string where
  "PURCHASE_AMOUNT_METRIC = ''ecommerce.purchase_amount''"

definition PURCHASE_COUNT_METRIC :: string where
  "PURCHASE_COUNT_METRIC = ''ecommerce.purchase_count''"

definition PROCESSING_TIME_METRIC :: string where
  "PROCESSING_TIME_METRIC = ''ecommerce.processing_time''"

definition REQUEST_LATENCY_METRIC_NAME :: string where
  "REQUEST_LATENCY_METRIC_NAME = ''request_latency_seconds_hist''"

definition REQUEST_COUNT :: string where
  "REQUEST_COUNT = ''request_count''"

definition ERROR_COUNT :: string where
  "ERROR_COUNT = ''error_count''"

definition BUSINESS_METRIC :: string where
  "BUSINESS_METRIC = ''business_value''"

definition DB_QUERY_COUNT :: string where
  "DB_QUERY_COUNT = ''database_queries_total''"

definition MEMORY_USAGE_METRIC :: string where
  "MEMORY_USAGE_METRIC = ''memory_usage_bytes''"

definition CPU_USAGE_METRIC :: string where
  "CPU_USAGE_METRIC = ''cpu_usage_seconds''"

section \<open>Python primitives the hooks use\<close>

text \<open>
  \<^verbatim>\<open>amount < k\<close> for an integer literal \<open>k\<close>: numbers compare by value, \<^verbatim>\<open>None\<close> and
  strings raise \<^verbatim>\<open>TypeError\<close>.
\<close>

fun py_lt :: "pyval \<Rightarrow> int \<Rightarrow> pyerr + bool" where
  "py_lt (PInt i) k = Inr (i < k)"
| "py_lt (PFloat x) k = Inr (x < real_of_int k)"
| "py_lt PNone k = Inl TypeError"
| "py_lt (PStr s) k = Inl TypeError"

text \<open>\<^verbatim>\<open>time.time() - request.start_time\<close>: the left operand is a float.\<close>

fun py_float_sub :: "real \<Rightarrow> pyval \<Rightarrow> pyerr + pyval" where
  "py_float_sub a (PInt i) = Inr (PFloat (a - real_of_int i))"
| "py_float_sub a (PFloat x) = Inr (PFloat (a - x))"
| "py_float_sub a PNone = Inl TypeError"
| "py_float_sub a (PStr s) = Inl TypeError"

text \<open>Decimal rendering of an integer, as \<^verbatim>\<open>str\<close> and an f-string produce it.\<close>

definition digit_char :: "nat \<Rightarrow> char" where
  "digit_char d = char_of (48 + d)"

fun nat_digits :: "nat \<Rightarrow> string" where
  "nat_digits n =
     (if n < 10 then [digit_char n] else nat_digits (n div 10) @ [digit_char (n mod 10)])"

declare nat_digits.simps [simp del]

definition str_int :: "int \<Rightarrow> string" where
  "str_int i = (if i < 0 then CHR ''-'' # nat_digits (nat (- i)) else nat_digits (nat i))"

section \<open>get\_amount\_range\<close>

text \<open>
  \<^verbatim>\<open>
  def get_amount_range(amount):
      if amount < 10:    return "small"
      elif amount < 50:  return "medium"
      elif amount < 200: return "large"
      else:              return "premium"
  \<close>
  A comparison that raises ends the function with that exception.
\<close>

definition get_amount_range :: "pyval \<Rightarrow> pyerr + string" where
  "get_amount_range amount =
     (case py_lt amount 10 of
        Inl e \<Rightarrow> Inl e
      | Inr True \<Rightarrow> Inr ''small''
      | Inr False \<Rightarrow>
          (case py_lt amount 50 of
             Inl e \<Rightarrow> Inl e
           | Inr True \<Rightarrow> Inr ''medium''
           | Inr False \<Rightarrow>
               (case py_lt amount 200 of
                  Inl e \<Rightarrow> Inl e
                | Inr True \<Rightarrow> Inr ''large''
                | Inr False \<Rightarrow> Inr ''premium'')))"

section \<open>Request, response and the builtins that read them\<close>

text \<open>
  The Flask request as the hooks see it: its path and method (strings; the field
  \<open>req_method\<close> is \<^verbatim>\<open>request.method\<close>), its query
  parameters (\<^verbatim>\<open>request.args\<close>), and the attributes stashed on it at run time, which
  \<^verbatim>\<open>getattr(request, name, default)\<close> reads. The response carries the integer
  \<^verbatim>\<open>status_code\<close>; a hook may be handed \<^verbatim>\<open>None\<close> instead of a response.
\<close>

record request =
  path :: string
  req_method :: string
  args :: "string \<rightharpoonup> string"
  attrs :: "string \<rightharpoonup> pyval"

record response =
  status_code :: int

text \<open>
  Three builtins convert between strings and numbers by Python's literal grammar, which
  is not reproduced here; they are parameters of the model. \<open>float_of_str\<close> and
  \<open>int_of_str\<close> give \<open>None\<close> where \<^verbatim>\<open>float(s)\<close> and \<^verbatim>\<open>int(s)\<close> raise
  \<^verbatim>\<open>ValueError\<close>; \<open>repr_float\<close> is the text of a float in an f-string.
\<close>

record builtins =
  float_of_str :: "string \<Rightarrow> real option"
  int_of_str :: "string \<Rightarrow> int option"
  repr_float :: "real \<Rightarrow> string"

text \<open>The text an f-string puts for \<^verbatim>\<open>{v}\<close>.\<close>

fun py_str :: "builtins \<Rightarrow> pyval \<Rightarrow> string" where
  "py_str b PNone = ''None''"
| "py_str b (PInt i) = str_int i"
| "py_str b (PFloat x) = repr_float b x"
| "py_str b (PStr s) = s"

text \<open>\<^verbatim>\<open>float(v)\<close>.\<close>

fun py_float :: "builtins \<Rightarrow> pyval \<Rightarrow> pyerr + pyval" where
  "py_float b PNone = Inl TypeError"
| "py_float b (PInt i) = Inr (PFloat (real_of_int i))"
| "py_float b (PFloat x) = Inr (PFloat x)"
| "py_float b (PStr s) =
     (case float_of_str b s of None \<Rightarrow> Inl ValueError | Some x \<Rightarrow> Inr (PFloat x))"

text \<open>\<^verbatim>\<open>getattr(request, name, default)\<close>.\<close>

definition getattr :: "request \<Rightarrow> string \<Rightarrow> pyval \<Rightarrow> pyval" where
  "getattr req name dflt = (case attrs req name of None \<Rightarrow> dflt | Some v \<Rightarrow> v)"

text \<open>
  \<^verbatim>\<open>request.args.get(key, default, type=int)\<close>: the default when the key is absent and
  when the conversion raises.
\<close>

definition args_get_int :: "builtins \<Rightarrow> request \<Rightarrow> string \<Rightarrow> int \<Rightarrow> int" where
  "args_get_int b req key dflt =
     (case args req key of
        None \<Rightarrow> dflt
      | Some s \<Rightarrow> (case int_of_str b s of None \<Rightarrow> dflt | Some n \<Rightarrow> n))"

section \<open>The hooks\<close>

text \<open>
  A hook that takes the response returns either the exception it lets escape or the
  value it returns, together with the world after it. The clock reading of
  \<^verbatim>\<open>time.time()\<close> is an argument.
  \<^verbatim>\<open>
  def start_timer():
      request.start_time = time.time()
  \<close>
\<close>

definition start_timer :: "real \<Rightarrow> request \<Rightarrow> request" where
  "start_timer now req = req\<lparr>attrs := (attrs req)(''start_time'' \<mapsto> PFloat now)\<rparr>"

text \<open>
  \<^verbatim>\<open>
  def stop_timer(response):
      resp_time = time.time() - request.start_time
      statsd.histogram(REQUEST_LATENCY_METRIC_NAME, resp_time,
          tags=["service:webapp", f"endpoint:{request.path}",
                f"method:{request.method}", f"status:{response.status_code}"])
      return response
  \<close>
  Reading a missing \<^verbatim>\<open>start_time\<close>, and \<^verbatim>\<open>status_code\<close> of \<^verbatim>\<open>None\<close>, raise
  \<^verbatim>\<open>AttributeError\<close>; the arguments are evaluated before the client is called.
\<close>

definition stop_timer ::
  "real \<Rightarrow> request \<Rightarrow> response option \<Rightarrow> io \<Rightarrow> (pyerr + response option) \<times> io" where
  "stop_timer now req resp s =
     (case attrs req ''start_time'' of
        None \<Rightarrow> (Inl AttributeError, s)
      | Some t \<Rightarrow>
          (case py_float_sub now t of
             Inl e \<Rightarrow> (Inl e, s)
           | Inr resp_time \<Rightarrow>
               (case resp of
                  None \<Rightarrow> (Inl AttributeError, s)
                | Some r \<Rightarrow>
                    (Inr resp,
                     statsd (Histogram REQUEST_LATENCY_METRIC_NAME resp_time
                       [''service:webapp'',
                        ''endpoint:'' @ path req,
                        ''method:'' @ req_method req,
                        ''status:'' @ str_int (status_code r)]) s))))"

text \<open>
  \<^verbatim>\<open>record_request_data(response)\<close>, statement by statement: the request counter, the
  error counter for a status from 400 up to but excluding 600, the database-query counter
  for three paths, then the gauges of \<^verbatim>\<open>/delay\<close> (where \<^verbatim>\<open>float(...)\<close> may raise),
  \<^verbatim>\<open>/memory-usage\<close> and \<^verbatim>\<open>/cpu-intensive\<close>.
\<close>

definition record_request_data ::
  "builtins \<Rightarrow> request \<Rightarrow> response option \<Rightarrow> io \<Rightarrow> (pyerr + response option) \<times> io" where
  "record_request_data b req resp s0 =
     (case resp of
        None \<Rightarrow> (Inl AttributeError, s0)
      | Some r \<Rightarrow>
          (let s1 = statsd (Increment REQUEST_COUNT (PInt 1)
                      [''service:webapp'',
                       ''method:'' @ req_method req,
                       ''endpoint:'' @ path req,
                       ''status:'' @ str_int (status_code r)]) s0;
               s2 = (if 400 \<le> status_code r \<and> status_code r < 600
                     then statsd (Increment ERROR_COUNT (PInt 1)
                            [''service:webapp'',
                             ''method:'' @ req_method req,
                             ''endpoint:'' @ path req,
                             ''status:'' @ str_int (status_code r)]) s1
                     else s1);
               s3 = (if path req \<in> set [''/users'', ''/database-query'', ''/health'']
                     then statsd (Increment DB_QUERY_COUNT (PInt 1)
                            [''service:webapp'',
                             ''endpoint:'' @ path req,
                             ''method:'' @ req_method req]) s2
                     else s2)
           in case (if path req = ''/delay''
                    then (case py_float b (getattr req ''business_value'' (PFloat 1)) of
                            Inl e \<Rightarrow> Inl e
                          | Inr business_value \<Rightarrow>
                              Inr (statsd (Gauge BUSINESS_METRIC business_value
                                     [''service:webapp'', ''metric_type:performance'']) s3))
                    else Inr s3) of
                Inl e \<Rightarrow> (Inl e, s3)
              | Inr s4 \<Rightarrow>
                  (let s5 = (if path req = ''/memory-usage''
                             then statsd (Gauge MEMORY_USAGE_METRIC
                                    (PInt (args_get_int b req ''size'' 10 * 1024 * 1024))
                                    [''service:webapp'', ''operation:memory_allocation'']) s4
                             else s4);
                       s6 = (if path req = ''/cpu-intensive''
                             then statsd (Gauge CPU_USAGE_METRIC
                                    (getattr req ''cpu_execution_time'' (PInt 0))
                                    [''service:webapp'', ''operation:cpu_intensive'']) s5
                             else s5)
                   in (Inr resp, s6))))"

text \<open>
  \<^verbatim>\<open>record_purchase_metrics(response)\<close>: \<^verbatim>\<open>None\<close> is returned at once; the body runs
  under \<^verbatim>\<open>try ... except Exception\<close>, whose handler prints the exception, and the
  response is returned in every case. Inside the body only
  \<^verbatim>\<open>get_amount_range(purchase_amount)\<close> can raise, while the tag list of the first
  client call is being built.
\<close>

definition record_purchase_metrics ::
  "builtins \<Rightarrow> request \<Rightarrow> response option \<Rightarrow> io \<Rightarrow> (pyerr + response option) \<times> io" where
  "record_purchase_metrics b req resp s =
     (case resp of
        None \<Rightarrow> (Inr resp, s)
      | Some r \<Rightarrow>
          (if path req = ''/purchase'' \<and> req_method req = ''POST'' then
             (let purchase_amount = getattr req ''purchase_amount'' (PInt 0);
                  processing_time = getattr req ''processing_time'' (PInt 0);
                  quantity = getattr req ''quantity'' (PInt 0);
                  product_id = getattr req ''product_id'' (PStr ''unknown'')
              in case get_amount_range purchase_amount of
                   Inl e \<Rightarrow> (Inr resp, s\<lparr>printed := printed s @ [e]\<rparr>)
                 | Inr amount_range \<Rightarrow>
                     (Inr resp,
                      statsd (Distribution PROCESSING_TIME_METRIC processing_time
                                [''service:webapp'', ''operation:purchase''])
                        (statsd (Increment PURCHASE_COUNT_METRIC quantity
                                   [''service:webapp'',
                                    ''transaction_type:purchase'',
                                    ''product_id:'' @ py_str b product_id])
                           (statsd (Gauge PURCHASE_AMOUNT_METRIC purchase_amount
                                      [''service:webapp'',
                                       ''currency:USD'',
                                       ''amount_range:'' @ amount_range,
                                       ''product_id:'' @ py_str b product_id]) s))))
           else (Inr resp, s)))"

section \<open>Registration of the hooks\<close>

text \<open>
  \<^verbatim>\<open>
  def setup_datadog_metrics(app):
      app.before_request(start_timer)
      app.after_request(stop_timer)
      app.after_request(record_request_data)
      app.after_request(record_purchase_metrics)
  \<close>
  The application object keeps the registered functions in two lists;
  \<^verbatim>\<open>before_request\<close> and \<^verbatim>\<open>after_request\<close> append to them.
\<close>

datatype before_hook = StartTimer

datatype after_hook = StopTimer | RecordRequestData | RecordPurchaseMetrics

record app =
  before_request_funcs :: "before_hook list"
  after_request_funcs :: "after_hook list"

definition before_request :: "before_hook \<Rightarrow> app \<Rightarrow> app" where
  "before_request f a = a\<lparr>before_request_funcs := before_request_funcs a @ [f]\<rparr>"

definition after_request :: "after_hook \<Rightarrow> app \<Rightarrow> app" where
  "after_request f a = a\<lparr>after_request_funcs := after_request_funcs a @ [f]\<rparr>"

definition setup_datadog_metrics :: "app \<Rightarrow> app" where
  "setup_datadog_metrics a =
     after_request RecordPurchaseMetrics
       (after_request RecordRequestData
          (after_request StopTimer
             (before_request StartTimer a)))"

text \<open>
  How the framework runs the registered functions is Flask's code, not the module's.
  Flask's \<^verbatim>\<open>preprocess_request\<close> calls the before-request functions in the order of
  registration; its \<^verbatim>\<open>process_response\<close> iterates over
  \<^verbatim>\<open>reversed(self.after_request_funcs[None])\<close>, handing each function the response the
  previous one returned, and an exception ends the iteration.
\<close>

fun run_before :: "real \<Rightarrow> before_hook \<Rightarrow> request \<Rightarrow> request" where
  "run_before now StartTimer req = start_timer now req"

definition preprocess_request :: "real \<Rightarrow> app \<Rightarrow> request \<Rightarrow> request" where
  "preprocess_request now a req = fold (run_before now) (before_request_funcs a) req"

fun run_after ::
  "builtins \<Rightarrow> real \<Rightarrow> after_hook \<Rightarrow> request \<Rightarrow> response option \<Rightarrow> io
     \<Rightarrow> (pyerr + response option) \<times> io" where
  "run_after b now StopTimer req resp s = stop_timer now req resp s"
| "run_after b now RecordRequestData req resp s = record_request_data b req resp s"
| "run_after b now RecordPurchaseMetrics req resp s = record_purchase_metrics b req resp s"

fun run_hooks ::
  "builtins \<Rightarrow> real \<Rightarrow> after_hook list \<Rightarrow> request \<Rightarrow> response option \<Rightarrow> io
     \<Rightarrow> (pyerr + response option) \<times> io" where
  "run_hooks b now [] req resp s = (Inr resp, s)"
| "run_hooks b now (h # hs) req resp s =
     (case run_after b now h req resp s of
        (Inl e, s') \<Rightarrow> (Inl e, s')
      | (Inr resp', s') \<Rightarrow> run_hooks b now hs req resp' s')"

definition process_response ::
  "builtins \<Rightarrow> real \<Rightarrow> app \<Rightarrow> request \<Rightarrow> response option \<Rightarrow> io
     \<Rightarrow> (pyerr + response option) \<times> io" where
  "process_response b now a req resp s =
     run_hooks b now (rev (after_request_funcs a)) req resp s"

section \<open>The metric identity of the specification\<close>

text \<open>
  Modelled from the spec: the module has no \<open>MetricKey\<close>; it hands each tag list to
  the client in the order written. The specification's data model defines the identity of
  a metric as its name with the sequence of (key, value) string pairs of its tags sorted
  lexicographically by key; the tags are supplied per call as a mapping from string to
  string, given here by its items in the order supplied.
\<close>

definition MetricKey :: "string \<Rightarrow> (string \<times> string) list \<Rightarrow> string \<times> (string \<times> string) list" where
  "MetricKey name T = (name, sort_key fst T)"

section \<open>Properties\<close>

lemmas metric_names =
  PURCHASE_AMOUNT_METRIC_def PURCHASE_COUNT_METRIC_def PROCESSING_TIME_METRIC_def
  REQUEST_LATENCY_METRIC_NAME_def REQUEST_COUNT_def ERROR_COUNT_def BUSINESS_METRIC_def
  DB_QUERY_COUNT_def MEMORY_USAGE_METRIC_def CPU_USAGE_METRIC_def

subsection \<open>Helper facts\<close>

lemma str_int_examples:
  "str_int 200 = ''200'' \<and> str_int 404 = ''404'' \<and> str_int 0 = ''0'' \<and> str_int (- 7) = ''-7''"
  by code_simp

lemma emitted_statsd: "emitted (statsd c s) = emitted s @ [c]"
  by (simp add: statsd_def)

lemma calls_named_append: "calls_named n (xs @ ys) = calls_named n xs @ calls_named n ys"
  by (simp add: calls_named_def)

lemma calls_named_Cons:
  "calls_named n (c # cs) = (if call_name c = n then c # calls_named n cs else calls_named n cs)"
  by (simp add: calls_named_def)

lemma calls_named_Nil: "calls_named n [] = []"
  by (simp add: calls_named_def)

text \<open>
  The calls of \<^verbatim>\<open>record_request_data\<close> on a response: the request counter, the error
  counter and the database-query counter, each under its condition, then gauges only
  (none at all when \<^verbatim>\<open>float(...)\<close> raises).
\<close>

lemma record_request_data_emitted:
  "\<exists>rest. emitted (snd (record_request_data b req (Some r) s)) =
      emitted s
      @ [Increment REQUEST_COUNT (PInt 1)
           [''service:webapp'', ''method:'' @ req_method req, ''endpoint:'' @ path req,
            ''status:'' @ str_int (status_code r)]]
      @ (if 400 \<le> status_code r \<and> status_code r < 600
         then [Increment ERROR_COUNT (PInt 1)
                 [''service:webapp'', ''method:'' @ req_method req, ''endpoint:'' @ path req,
                  ''status:'' @ str_int (status_code r)]]
         else [])
      @ (if path req \<in> set [''/users'', ''/database-query'', ''/health'']
         then [Increment DB_QUERY_COUNT (PInt 1)
                 [''service:webapp'', ''endpoint:'' @ path req, ''method:'' @ req_method req]]
         else [])
      @ rest
    \<and> list_all (\<lambda>c. call_name c = BUSINESS_METRIC \<or> call_name c = MEMORY_USAGE_METRIC
                     \<or> call_name c = CPU_USAGE_METRIC) rest"
proof -
  define pd where "pd \<longleftrightarrow> path req = ''/delay''"
  define pm where "pm \<longleftrightarrow> path req = ''/memory-usage''"
  define pc where "pc \<longleftrightarrow> path req = ''/cpu-intensive''"
  define db where "db \<longleftrightarrow> path req \<in> set [''/users'', ''/database-query'', ''/health'']"
  have "\<exists>rest. emitted (snd (record_request_data b req (Some r) s)) =
      emitted s
      @ [Increment REQUEST_COUNT (PInt 1)
           [''service:webapp'', ''method:'' @ req_method req, ''endpoint:'' @ path req,
            ''status:'' @ str_int (status_code r)]]
      @ (if 400 \<le> status_code r \<and> status_code r < 600
         then [Increment ERROR_COUNT (PInt 1)
                 [''service:webapp'', ''method:'' @ req_method req, ''endpoint:'' @ path req,
                  ''status:'' @ str_int (status_code r)]]
         else [])
      @ (if db
         then [Increment DB_QUERY_COUNT (PInt 1)
                 [''service:webapp'', ''endpoint:'' @ path req, ''method:'' @ req_method req]]
         else [])
      @ rest
    \<and> list_all (\<lambda>c. call_name c = BUSINESS_METRIC \<or> call_name c = MEMORY_USAGE_METRIC
                     \<or> call_name c = CPU_USAGE_METRIC) rest"
    unfolding record_request_data_def pd_def [symmetric] pm_def [symmetric] pc_def [symmetric]
      db_def [symmetric]
    by (cases pd; cases pm; cases pc; cases db;
        cases "400 \<le> status_code r \<and> status_code r < 600";
        cases "py_float b (getattr req ''business_value'' (PFloat 1))";
        simp add: Let_def emitted_statsd)
  then show ?thesis
    unfolding db_def .
qed

lemma calls_named_gauges:
  assumes "list_all (\<lambda>c. call_name c = BUSINESS_METRIC \<or> call_name c = MEMORY_USAGE_METRIC
                     \<or> call_name c = CPU_USAGE_METRIC) rest"
  shows "calls_named REQUEST_COUNT rest = []" "calls_named ERROR_COUNT rest = []"
    "calls_named DB_QUERY_COUNT rest = []"
  using assms by (induction rest; auto simp add: calls_named_def metric_names)+

lemma request_count_calls:
  "calls_named REQUEST_COUNT (new_calls s (snd (record_request_data b req (Some r) s))) =
     [Increment REQUEST_COUNT (PInt 1)
        [''service:webapp'', ''method:'' @ req_method req, ''endpoint:'' @ path req,
         ''status:'' @ str_int (status_code r)]]"
proof -
  obtain rest where
    e: "emitted (snd (record_request_data b req (Some r) s)) =
      emitted s
      @ [Increment REQUEST_COUNT (PInt 1)
           [''service:webapp'', ''method:'' @ req_method req, ''endpoint:'' @ path req,
            ''status:'' @ str_int (status_code r)]]
      @ (if 400 \<le> status_code r \<and> status_code r < 600
         then [Increment ERROR_COUNT (PInt 1)
                 [''service:webapp'', ''method:'' @ req_method req, ''endpoint:'' @ path req,
                  ''status:'' @ str_int (status_code r)]]
         else [])
      @ (if path req \<in> set [''/users'', ''/database-query'', ''/health'']
         then [Increment DB_QUERY_COUNT (PInt 1)
                 [''service:webapp'', ''endpoint:'' @ path req, ''method:'' @ req_method req]]
         else [])
      @ rest"
    and g: "list_all (\<lambda>c. call_name c = BUSINESS_METRIC \<or> call_name c = MEMORY_USAGE_METRIC
                     \<or> call_name c = CPU_USAGE_METRIC) rest"
    using record_request_data_emitted [of b req r s] by blast
  show ?thesis
    unfolding new_calls_def e
    by (simp add: calls_named_append calls_named_Cons calls_named_Nil
          calls_named_gauges [OF g, unfolded metric_names] metric_names)
qed

lemma error_count_calls:
  "calls_named ERROR_COUNT (new_calls s (snd (record_request_data b req (Some r) s))) =
     (if 400 \<le> status_code r \<and> status_code r < 600
      then [Increment ERROR_COUNT (PInt 1)
        [''service:webapp'', ''method:'' @ req_method req, ''endpoint:'' @ path req,
         ''status:'' @ str_int (status_code r)]]
      else [])"
proof -
  obtain rest where
    e: "emitted (snd (record_request_data b req (Some r) s)) =
      emitted s
      @ [Increment REQUEST_COUNT (PInt 1)
           [''service:webapp'', ''method:'' @ req_method req, ''endpoint:'' @ path req,
            ''status:'' @ str_int (status_code r)]]
      @ (if 400 \<le> status_code r \<and> status_code r < 600
         then [Increment ERROR_COUNT (PInt 1)
                 [''service:webapp'', ''method:'' @ req_method req, ''endpoint:'' @ path req,
                  ''status:'' @ str_int (status_code r)]]
         else [])
      @ (if path req \<in> set [''/users'', ''/database-query'', ''/health'']
         then [Increment DB_QUERY_COUNT (PInt 1)
                 [''service:webapp'', ''endpoint:'' @ path req, ''method:'' @ req_method req]]
         else [])
      @ rest"
    and g: "list_all (\<lambda>c. call_name c = BUSINESS_METRIC \<or> call_name c = MEMORY_USAGE_METRIC
                     \<or> call_name c = CPU_USAGE_METRIC) rest"
    using record_request_data_emitted [of b req r s] by blast
  show ?thesis
    unfolding new_calls_def e
    by (simp add: calls_named_append calls_named_Cons calls_named_Nil
          calls_named_gauges [OF g, unfolded metric_names] metric_names)
qed

lemma db_query_count_calls:
  "calls_named DB_QUERY_COUNT (new_calls s (snd (record_request_data b req (Some r) s))) =
     (if path req \<in> set [''/users'', ''/database-query'', ''/health'']
      then [Increment DB_QUERY_COUNT (PInt 1)
        [''service:webapp'', ''endpoint:'' @ path req, ''method:'' @ req_method req]]
      else [])"
proof -
  obtain rest where
    e: "emitted (snd (record_request_data b req (Some r) s)) =
      emitted s
      @ [Increment REQUEST_COUNT (PInt 1)
           [''service:webapp'', ''method:'' @ req_method req, ''endpoint:'' @ path req,
            ''status:'' @ str_int (status_code r)]]
      @ (if 400 \<le> status_code r \<and> status_code r < 600
         then [Increment ERROR_COUNT (PInt 1)
                 [''service:webapp'', ''method:'' @ req_method req, ''endpoint:'' @ path req,
                  ''status:'' @ str_int (status_code r)]]
         else [])
      @ (if path req \<in> set [''/users'', ''/database-query'', ''/health'']
         then [Increment DB_QUERY_COUNT (PInt 1)
                 [''service:webapp'', ''endpoint:'' @ path req, ''method:'' @ req_method req]]
         else [])
      @ rest"
    and g: "list_all (\<lambda>c. call_name c = BUSINESS_METRIC \<or> call_name c = MEMORY_USAGE_METRIC
                     \<or> call_name c = CPU_USAGE_METRIC) rest"
    using record_request_data_emitted [of b req r s] by blast
  define db where "db \<longleftrightarrow> path req \<in> set [''/users'', ''/database-query'', ''/health'']"
  show ?thesis
    unfolding new_calls_def e db_def [symmetric]
    by (simp add: calls_named_append calls_named_Cons calls_named_Nil
          calls_named_gauges [OF g, unfolded metric_names] metric_names)
qed

lemma stop_timer_with_start_time:
  "attrs req ''start_time'' = Some (PFloat t0) \<Longrightarrow>
   stop_timer now req (Some r) s =
     (Inr (Some r),
      statsd (Histogram REQUEST_LATENCY_METRIC_NAME (PFloat (now - t0))
         [''service:webapp'', ''endpoint:'' @ path req, ''method:'' @ req_method req,
          ''status:'' @ str_int (status_code r)]) s)"
  by (simp add: stop_timer_def)

lemma sort_key_fst_unique:
  fixes T T' :: "(string \<times> string) list"
  assumes d: "distinct (map fst T)" and p: "mset T' = mset T"
  shows "sort_key fst T' = sort_key fst T"
proof (rule map_sorted_distinct_set_unique [where f = fst])
  have st: "set T' = set T" using p by (rule mset_eq_setD)
  have "inj_on fst (set T)" using d by (simp add: distinct_map)
  then show "inj_on fst (set (sort_key fst T') \<union> set (sort_key fst T))"
    by (simp add: st)
  show "sorted (map fst (sort_key fst T'))" by simp
  show "sorted (map fst (sort_key fst T))" by simp
  have "mset (map fst T') = mset (map fst T)" by (simp add: p)
  from mset_eq_imp_distinct_iff [OF this] have d': "distinct (map fst T')" using d by simp
  show "distinct (map fst (sort_key fst T'))" using d' by (simp add: distinct_map)
  show "distinct (map fst (sort_key fst T))" using d by (simp add: distinct_map)
  show "set (sort_key fst T') = set (sort_key fst T)" by (simp add: st)
qed

subsection \<open>The claims\<close>

text \<open>
  C8. \<^verbatim>\<open>get_amount_range\<close> is total on numeric inputs (Python ints and floats): it
  raises nothing and returns "small" below 10, "medium" from 10 up to but excluding 50,
  "large" from 50 up to but excluding 200, and "premium" from 200 on.
\<close>

theorem get_amount_range_numeric:
  "get_amount_range (PInt i) =
     Inr (if i < 10 then ''small'' else if i < 50 then ''medium''
          else if i < 200 then ''large'' else ''premium'')
   \<and> get_amount_range (PFloat x) =
     Inr (if x < 10 then ''small'' else if x < 50 then ''medium''
          else if x < 200 then ''large'' else ''premium'')"
  by (simp add: get_amount_range_def)

text \<open>
  C3. \<^verbatim>\<open>start_timer\<close> records the clock reading on the request as \<^verbatim>\<open>start_time\<close>; and
  for a request that still carries that reading when it completes with a response,
  \<^verbatim>\<open>stop_timer\<close> returns the response and makes exactly one client call: a histogram
  sample of \<^verbatim>\<open>request_latency_seconds_hist\<close> whose value is the clock reading at
  completion minus the recorded one, with exactly the four tags service, endpoint (the
  path), method and status (the status code in decimal).
\<close>

theorem request_latency_histogram:
  "attrs (start_timer t0 req0) ''start_time'' = Some (PFloat t0)
   \<and> (attrs req ''start_time'' = Some (PFloat t0) \<longrightarrow>
        fst (stop_timer now req (Some r) s) = Inr (Some r)
      \<and> new_calls s (snd (stop_timer now req (Some r) s)) =
          [Histogram REQUEST_LATENCY_METRIC_NAME (PFloat (now - t0))
             [''service:webapp'', ''endpoint:'' @ path req, ''method:'' @ req_method req,
              ''status:'' @ str_int (status_code r)]])"
  by (simp add: start_timer_def stop_timer_with_start_time emitted_statsd new_calls_def)

theorem request_latency_histogram_witness:
  "attrs (start_timer 100 \<lparr>path = ''/users'', req_method = ''GET'', args = Map.empty, attrs = Map.empty\<rparr>)
      ''start_time'' = Some (PFloat 100)
   \<and> fst (stop_timer (203 / 2)
        (start_timer 100 \<lparr>path = ''/users'', req_method = ''GET'', args = Map.empty, attrs = Map.empty\<rparr>)
        (Some \<lparr>status_code = 200\<rparr>) \<lparr>emitted = [], printed = []\<rparr>) = Inr (Some \<lparr>status_code = 200\<rparr>)
   \<and> new_calls \<lparr>emitted = [], printed = []\<rparr>
       (snd (stop_timer (203 / 2)
        (start_timer 100 \<lparr>path = ''/users'', req_method = ''GET'', args = Map.empty, attrs = Map.empty\<rparr>)
        (Some \<lparr>status_code = 200\<rparr>) \<lparr>emitted = [], printed = []\<rparr>)) =
       [Histogram ''request_latency_seconds_hist'' (PFloat (3 / 2))
          [''service:webapp'', ''endpoint:/users'', ''method:GET'', ''status:200'']]"
proof -
  have d: "str_int 200 = ''200''" by code_simp
  have h: "attrs (start_timer 100 \<lparr>path = ''/users'', req_method = ''GET'', args = Map.empty, attrs = Map.empty\<rparr>)
      ''start_time'' = Some (PFloat 100)"
    by (simp add: start_timer_def)
  show ?thesis
    using h d
      request_latency_histogram [of 100
        "\<lparr>path = ''/users'', req_method = ''GET'', args = Map.empty, attrs = Map.empty\<rparr>"
        "start_timer 100 \<lparr>path = ''/users'', req_method = ''GET'', args = Map.empty, attrs = Map.empty\<rparr>"
        "203 / 2" "\<lparr>status_code = 200\<rparr>" "\<lparr>emitted = [], printed = []\<rparr>"]
    by (simp add: start_timer_def REQUEST_LATENCY_METRIC_NAME_def)
qed

text \<open>
  C4. On a response, \<^verbatim>\<open>record_request_data\<close> makes exactly one increment of
  \<^verbatim>\<open>request_count\<close>, and makes an increment of \<^verbatim>\<open>error_count\<close> (exactly one) if and
  only if the status code is from 400 to 599 inclusive.
\<close>

theorem request_and_error_count:
  "calls_named REQUEST_COUNT (new_calls s (snd (record_request_data b req (Some r) s))) =
     [Increment REQUEST_COUNT (PInt 1)
        [''service:webapp'', ''method:'' @ req_method req, ''endpoint:'' @ path req,
         ''status:'' @ str_int (status_code r)]]
   \<and> calls_named ERROR_COUNT (new_calls s (snd (record_request_data b req (Some r) s))) =
     (if 400 \<le> status_code r \<and> status_code r \<le> 599
      then [Increment ERROR_COUNT (PInt 1)
        [''service:webapp'', ''method:'' @ req_method req, ''endpoint:'' @ path req,
         ''status:'' @ str_int (status_code r)]]
      else [])"
proof -
  have le: "status_code r \<le> 599 \<longleftrightarrow> status_code r < 600" by arith
  show ?thesis unfolding le by (simp only: request_count_calls error_count_calls simp_thms)
qed

text \<open>
  C5. For a request timed by \<^verbatim>\<open>start_timer\<close> and completed with a response, the tags of
  the \<^verbatim>\<open>request_count\<close> increment and the tags of the latency histogram sample are the
  same set of tags.
\<close>

theorem request_count_tags_eq_latency_tags:
  "\<exists>ts ts'.
     calls_named REQUEST_COUNT
       (new_calls s (snd (record_request_data b (start_timer t0 req) (Some r) s))) =
       [Increment REQUEST_COUNT (PInt 1) ts]
   \<and> calls_named REQUEST_LATENCY_METRIC_NAME
       (new_calls s' (snd (stop_timer now (start_timer t0 req) (Some r) s'))) =
       [Histogram REQUEST_LATENCY_METRIC_NAME (PFloat (now - t0)) ts']
   \<and> set ts = set ts'"
proof -
  have a: "attrs (start_timer t0 req) ''start_time'' = Some (PFloat t0)"
    by (simp add: start_timer_def)
  have "calls_named REQUEST_LATENCY_METRIC_NAME
       (new_calls s' (snd (stop_timer now (start_timer t0 req) (Some r) s'))) =
       [Histogram REQUEST_LATENCY_METRIC_NAME (PFloat (now - t0))
          [''service:webapp'', ''endpoint:'' @ path (start_timer t0 req),
           ''method:'' @ req_method (start_timer t0 req), ''status:'' @ str_int (status_code r)]]"
    by (simp add: stop_timer_with_start_time [OF a] emitted_statsd new_calls_def calls_named_def)
  moreover have "set [''service:webapp'', ''method:'' @ req_method (start_timer t0 req),
        ''endpoint:'' @ path (start_timer t0 req), ''status:'' @ str_int (status_code r)]
     = set [''service:webapp'', ''endpoint:'' @ path (start_timer t0 req),
           ''method:'' @ req_method (start_timer t0 req), ''status:'' @ str_int (status_code r)]"
    by (simp add: insert_commute)
  ultimately show ?thesis
    using request_count_calls [of s b "start_timer t0 req" r] by blast
qed

text \<open>
  C10. On a response, \<^verbatim>\<open>record_request_data\<close> increments \<^verbatim>\<open>database_queries_total\<close>
  (exactly once) if and only if the request path is \<^verbatim>\<open>/users\<close>, \<^verbatim>\<open>/database-query\<close> or
  \<^verbatim>\<open>/health\<close>; nothing else about the request decides it.
\<close>

theorem db_query_count_by_path:
  "calls_named DB_QUERY_COUNT (new_calls s (snd (record_request_data b req (Some r) s))) =
     (if path req = ''/users'' \<or> path req = ''/database-query'' \<or> path req = ''/health''
      then [Increment DB_QUERY_COUNT (PInt 1)
        [''service:webapp'', ''endpoint:'' @ path req, ''method:'' @ req_method req]]
      else [])"
proof -
  have m: "path req = ''/users'' \<or> path req = ''/database-query'' \<or> path req = ''/health''
     \<longleftrightarrow> path req \<in> set [''/users'', ''/database-query'', ''/health'']"
    by simp
  show ?thesis unfolding m by (rule db_query_count_calls)
qed

text \<open>
  C9. \<^verbatim>\<open>record_purchase_metrics\<close> returns the response it was given in every case. It
  makes its three client calls (the purchase-amount gauge, the purchase-count increment by
  the request's quantity, the processing-time distribution) if and only if the response is
  not \<^verbatim>\<open>None\<close>, the path is \<^verbatim>\<open>/purchase\<close>, the method is \<^verbatim>\<open>POST\<close> and building
  the calls raises nothing; in every other case it makes no client call.
\<close>

theorem purchase_metrics_emitted:
  "fst (record_purchase_metrics b req resp s) = Inr resp \<and>
   new_calls s (snd (record_purchase_metrics b req resp s)) =
   (if resp \<noteq> None \<and> path req = ''/purchase'' \<and> req_method req = ''POST'' then
      (case get_amount_range (getattr req ''purchase_amount'' (PInt 0)) of
         Inl e \<Rightarrow> []
       | Inr amount_range \<Rightarrow>
          [Gauge PURCHASE_AMOUNT_METRIC (getattr req ''purchase_amount'' (PInt 0))
             [''service:webapp'', ''currency:USD'', ''amount_range:'' @ amount_range,
              ''product_id:'' @ py_str b (getattr req ''product_id'' (PStr ''unknown''))],
           Increment PURCHASE_COUNT_METRIC (getattr req ''quantity'' (PInt 0))
             [''service:webapp'', ''transaction_type:purchase'',
              ''product_id:'' @ py_str b (getattr req ''product_id'' (PStr ''unknown''))],
           Distribution PROCESSING_TIME_METRIC (getattr req ''processing_time'' (PInt 0))
             [''service:webapp'', ''operation:purchase'']])
    else [])"
  by (auto simp add: record_purchase_metrics_def statsd_def new_calls_def Let_def
       split: sum.splits option.splits)

text \<open>
  C7. For every metric name and every tag mapping, given by its items with pairwise
  distinct keys, the metric identity formed from the items in any other order is the same.
\<close>

theorem MetricKey_tag_order_invariant:
  assumes "distinct (map fst T)" and "mset T' = mset T"
  shows "MetricKey name T' = MetricKey name T"
  unfolding MetricKey_def using sort_key_fst_unique [OF assms] by simp

theorem MetricKey_tag_order_invariant_witness:
  "distinct (map fst [(''service'', ''webapp''), (''endpoint'', ''/users''), (''method'', ''GET''), (''status'', ''200'')])
   \<and> mset [(''service'', ''webapp''), (''method'', ''GET''), (''endpoint'', ''/users''), (''status'', ''200'')]
     = mset [(''service'', ''webapp''), (''endpoint'', ''/users''), (''method'', ''GET''), (''status'', ''200'')]
   \<and> MetricKey ''request_count'' [(''service'', ''webapp''), (''method'', ''GET''), (''endpoint'', ''/users''), (''status'', ''200'')]
     = MetricKey ''request_count'' [(''service'', ''webapp''), (''endpoint'', ''/users''), (''method'', ''GET''), (''status'', ''200'')]"
proof -
  have d: "distinct (map fst [(''service'', ''webapp''), (''endpoint'', ''/users''), (''method'', ''GET''), (''status'', ''200'')])"
    by simp
  have p: "mset [(''service'', ''webapp''), (''method'', ''GET''), (''endpoint'', ''/users''), (''status'', ''200'')]
     = mset [(''service'', ''webapp''), (''endpoint'', ''/users''), (''method'', ''GET''), (''status'', ''200'')]"
    by (simp add: add_mset_commute)
  show ?thesis using d p MetricKey_tag_order_invariant [OF d p, of "''request_count''"] by blast
qed

subsection \<open>Exceptions that escape, and the order of the hooks\<close>

lemma stop_timer_returns_given:
  "fst (stop_timer now req resp s) = Inr r' \<Longrightarrow> r' = resp"
  by (simp add: stop_timer_def split: option.splits sum.splits)

lemma record_request_data_returns_given:
  "fst (record_request_data b req resp s) = Inr r' \<Longrightarrow> r' = resp"
  by (cases resp; cases "path req = ''/delay''";
      cases "py_float b (getattr req ''business_value'' (PFloat 1))";
      simp add: record_request_data_def Let_def)

lemma registration_order:
  "after_request_funcs (setup_datadog_metrics a) =
     after_request_funcs a @ [StopTimer, RecordRequestData, RecordPurchaseMetrics]
   \<and> before_request_funcs (setup_datadog_metrics a) = before_request_funcs a @ [StartTimer]"
  by (simp add: setup_datadog_metrics_def after_request_def before_request_def)

text \<open>
  C1 states that no hook ever lets an exception escape. \<^verbatim>\<open>stop_timer\<close> does: handed
  \<^verbatim>\<open>None\<close> for the response of a timed request it raises \<^verbatim>\<open>AttributeError\<close>, and so
  it does, with a response, on a request on which \<^verbatim>\<open>start_timer\<close> never ran. No client
  call is made in either case.
\<close>

theorem stop_timer_raises:
  "stop_timer 101
     (start_timer 100 \<lparr>path = ''/health'', req_method = ''GET'', args = Map.empty, attrs = Map.empty\<rparr>)
     None \<lparr>emitted = [], printed = []\<rparr>
   = (Inl AttributeError, \<lparr>emitted = [], printed = []\<rparr>)
   \<and> stop_timer 101
     \<lparr>path = ''/health'', req_method = ''GET'', args = Map.empty, attrs = Map.empty\<rparr>
     (Some \<lparr>status_code = 200\<rparr>) \<lparr>emitted = [], printed = []\<rparr>
   = (Inl AttributeError, \<lparr>emitted = [], printed = []\<rparr>)"
  by (simp add: stop_timer_def start_timer_def)

text \<open>
  C2 states that every after-request hook returns the response it was given, a
  \<^verbatim>\<open>None\<close> response included. \<^verbatim>\<open>record_request_data\<close> handed \<^verbatim>\<open>None\<close> returns
  nothing: it raises \<^verbatim>\<open>AttributeError\<close> before any client call. On \<^verbatim>\<open>/delay\<close> with a
  \<^verbatim>\<open>business_value\<close> that \<^verbatim>\<open>float\<close> rejects it raises after the request counter has
  been incremented, and the response is not returned either.
\<close>

theorem record_request_data_raises:
  "record_request_data b
     \<lparr>path = ''/health'', req_method = ''GET'', args = Map.empty, attrs = Map.empty\<rparr>
     None \<lparr>emitted = [], printed = []\<rparr>
   = (Inl AttributeError, \<lparr>emitted = [], printed = []\<rparr>)
   \<and> fst (record_request_data b
     \<lparr>path = ''/delay'', req_method = ''GET'', args = Map.empty,
        attrs = [''business_value'' \<mapsto> PNone]\<rparr>
     (Some \<lparr>status_code = 200\<rparr>) \<lparr>emitted = [], printed = []\<rparr>)
   = Inl TypeError"
  by (simp add: record_request_data_def getattr_def Let_def)

text \<open>
  C6 states that the latency histogram is recorded before the request counter is
  incremented. \<^verbatim>\<open>setup_datadog_metrics\<close> registers \<^verbatim>\<open>stop_timer\<close> first, and the
  framework runs the after-request functions in the reverse of that order: for a
  \<^verbatim>\<open>GET /\<close> answered with 200 the hooks run as \<^verbatim>\<open>record_purchase_metrics\<close>,
  \<^verbatim>\<open>record_request_data\<close>, \<^verbatim>\<open>stop_timer\<close>, and the client receives the
  \<^verbatim>\<open>request_count\<close> increment before the histogram sample.
\<close>

theorem request_count_emitted_before_latency:
  "rev (after_request_funcs
          (setup_datadog_metrics \<lparr>before_request_funcs = [], after_request_funcs = []\<rparr>))
   = [RecordPurchaseMetrics, RecordRequestData, StopTimer]
   \<and> map call_name (emitted (snd (process_response b 101
      (setup_datadog_metrics \<lparr>before_request_funcs = [], after_request_funcs = []\<rparr>)
      (preprocess_request 100
         (setup_datadog_metrics \<lparr>before_request_funcs = [], after_request_funcs = []\<rparr>)
         \<lparr>path = ''/'', req_method = ''GET'', args = Map.empty, attrs = Map.empty\<rparr>)
      (Some \<lparr>status_code = 200\<rparr>) \<lparr>emitted = [], printed = []\<rparr>)))
   = [REQUEST_COUNT, REQUEST_LATENCY_METRIC_NAME]"
  by (simp add: process_response_def preprocess_request_def setup_datadog_metrics_def
        after_request_def before_request_def record_purchase_metrics_def
        record_request_data_def stop_timer_def start_timer_def statsd_def Let_def)

end
